theory Spec2Isabelle
  imports Main "HOL-Library.Word"
begin

section \<open>JavaScript strings\<close>

text \<open>
  A JavaScript string is a sequence of UTF-16 code units; \<open>length\<close> is the
  source's \<open>.length\<close>. The ASCII part of a literal of \<open>auth.js\<close> is written with
  \<open>ascii\<close>, the pictographs that start its messages by their code units.
\<close>

type_synonym js_string = "16 word list"

definition ascii :: "string \<Rightarrow> js_string" where
  "ascii s = map of_char s"

definition info_sign :: js_string where
  "info_sign = [0x2139, 0xFE0F]"

definition warning_sign :: js_string where
  "warning_sign = [0x26A0, 0xFE0F]"

definition cross_mark :: js_string where
  "cross_mark = [0x274C]"

definition check_mark :: js_string where
  "check_mark = [0x2705]"

definition hourglass :: js_string where
  "hourglass = [0x23F3]"

text \<open>
  \<open>String.prototype.trim\<close> removes the WhiteSpace and LineTerminator code points
  of ECMAScript from both ends; all of them are single code units.
\<close>

definition is_white_space :: "16 word \<Rightarrow> bool" where
  "is_white_space c =
     (c \<in> {0x0009, 0x000A, 0x000B, 0x000C, 0x000D, 0x0020, 0x00A0, 0x1680,
            0x2028, 0x2029, 0x202F, 0x205F, 0x3000, 0xFEFF}
      \<or> (0x2000 \<le> c \<and> c \<le> 0x200A))"

definition trim :: "js_string \<Rightarrow> js_string" where
  "trim s = rev (dropWhile is_white_space (rev (dropWhile is_white_space s)))"

fun digit :: "nat \<Rightarrow> 16 word" where
  "digit n = of_nat (48 + n)"

text \<open>The decimal numeral of an HTTP status, as the template literal of line 102 prints it.\<close>

fun decimal :: "nat \<Rightarrow> js_string" where
  "decimal n = (if n < 10 then [digit n] else decimal (n div 10) @ [digit (n mod 10)])"

declare decimal.simps [simp del]

section \<open>Errors and values\<close>

text \<open>
  An error object is its \<open>name\<close> and its \<open>message\<close>. \<open>new Error(m)\<close> has the name
  \<open>Error\<close>; the engine's own failures are \<open>TypeError\<close>s, whose wording below is V8's;
  an aborted fetch rejects with a DOMException named \<open>AbortError\<close>.
\<close>

datatype js_error = JsError (err_name: js_string) (err_message: js_string)

definition new_Error :: "js_string \<Rightarrow> js_error" where
  "new_Error m = JsError (ascii ''Error'') m"

definition new_TypeError :: "js_string \<Rightarrow> js_error" where
  "new_TypeError m = JsError (ascii ''TypeError'') m"

definition abort_error :: js_error where
  "abort_error = JsError (ascii ''AbortError'') (ascii ''signal is aborted without reason'')"

definition null_read_error :: "js_string \<Rightarrow> js_error" where
  "null_read_error p =
     new_TypeError (ascii ''Cannot read properties of null (reading '' @ [0x27] @ p @ [0x27] @ ascii '')'')"

definition not_primitive_error :: js_error where
  "not_primitive_error = new_TypeError (ascii ''Cannot convert object to primitive value'')"

definition symbol_error :: js_error where
  "symbol_error = new_TypeError (ascii ''Cannot convert a Symbol value to a string'')"

text \<open>
  The value \<open>JSON.parse\<close> gives. A number is given by its rendering, the string that
  \<open>Number.prototype.toString\<close> yields for it (\<open>0\<close> for both zeros, \<open>0.5\<close>, \<open>-7\<close>,
  \<open>1e+21\<close>, \<open>Infinity\<close> for a literal that overflows): the script observes nothing of a
  number but whether it is zero and how it prints. An object holds its members in
  document order, and of two members with one name \<open>JSON.parse\<close> keeps the last.
\<close>

datatype json =
  JNull
| JBool bool
| JNum js_string
| JStr js_string
| JArr "json list"
| JObj "(js_string \<times> json) list"

text \<open>
  \<open>data.p\<close> for the names the source reads (\<open>message\<close>, \<open>error\<close>, \<open>token\<close>): a
  TypeError on \<open>null\<close>, the member of an object, and \<open>undefined\<close> (\<open>None\<close>) on
  everything else, since no prototype of a primitive or of an array has these names.
\<close>

definition own_member :: "(js_string \<times> json) list \<Rightarrow> js_string \<Rightarrow> json option" where
  "own_member kvs p = map_of (rev kvs) p"

fun get_prop :: "json \<Rightarrow> js_string \<Rightarrow> js_error + json option" where
  "get_prop JNull p = Inl (null_read_error p)"
| "get_prop (JObj kvs) p = Inr (own_member kvs p)"
| "get_prop _ p = Inr None"

text \<open>ToBoolean, on a value that may be \<open>undefined\<close>: of the numbers, the zeros and
  \<open>NaN\<close> are falsy.\<close>

fun truthy :: "json option \<Rightarrow> bool" where
  "truthy None = False"
| "truthy (Some JNull) = False"
| "truthy (Some (JBool b)) = b"
| "truthy (Some (JNum n)) = (n \<noteq> ascii ''0'' \<and> n \<noteq> ascii ''NaN'')"
| "truthy (Some (JStr s)) = (s \<noteq> [])"
| "truthy (Some (JArr xs)) = True"
| "truthy (Some (JObj kvs)) = True"

text \<open>
  ToString. A number is its rendering. An array is its elements joined by commas, \<open>null\<close> elements empty. A plain
  object is \<open>[object Object]\<close> through \<open>Object.prototype.toString\<close>, unless it has a
  member named \<open>toString\<close>: that member is no function, \<open>valueOf\<close> gives the object
  back, and the conversion throws a TypeError.
\<close>

fun to_string :: "json \<Rightarrow> js_error + js_string"
  and join_json :: "json list \<Rightarrow> js_error + js_string"
  and element_string :: "json \<Rightarrow> js_error + js_string" where
  "to_string JNull = Inr (ascii ''null'')"
| "to_string (JBool b) = Inr (if b then ascii ''true'' else ascii ''false'')"
| "to_string (JNum n) = Inr n"
| "to_string (JStr s) = Inr s"
| "to_string (JArr xs) = join_json xs"
| "to_string (JObj kvs) =
     (if own_member kvs (ascii ''toString'') \<noteq> None then Inl not_primitive_error
      else Inr (ascii ''[object Object]''))"
| "join_json [] = Inr []"
| "join_json [x] = element_string x"
| "join_json (x # y # ys) =
     (case element_string x of
        Inl e \<Rightarrow> Inl e
      | Inr s \<Rightarrow> (case join_json (y # ys) of Inl e \<Rightarrow> Inl e | Inr r \<Rightarrow> Inr (s @ ascii '','' @ r)))"
| "element_string JNull = Inr []"
| "element_string (JBool b) = to_string (JBool b)"
| "element_string (JNum n) = to_string (JNum n)"
| "element_string (JStr s) = to_string (JStr s)"
| "element_string (JArr xs) = to_string (JArr xs)"
| "element_string (JObj kvs) = to_string (JObj kvs)"

section \<open>The page\<close>

text \<open>
  The state the script reads and writes: the status element \<open>#errorMessage\<close> (absent:
  \<open>None\<close>), the two submit buttons, the \<open>active\<close> class of \<open>#container\<close>, the timers that
  are scheduled and neither cancelled nor fired, the property \<open>showMessage._t\<close>, the
  guard flag of the console mirror, what reached the browser's own console, the requests
  issued, \<open>localStorage\<close> and \<open>window.location.href\<close>. One handler runs at a time:
  no other event is interleaved with it.
\<close>

record status_element =
  textContent :: js_string
  className :: js_string
  display :: js_string

datatype button_content = InnerHTML js_string | TextContent js_string

record button =
  disabled :: bool
  content :: button_content

datatype timer_action = HideMessage | AbortRequest nat | Navigate js_string

datatype channel = ConsoleLog | ConsoleWarn | ConsoleError

datatype js_value = Undefined | Symbol | ErrorObject js_error | Json json

record request =
  req_url :: js_string
  req_method :: "js_string option"
  req_headers :: "(js_string \<times> js_string) list"
  req_body :: "json option"
  req_aborted :: bool

record world =
  errorMessage :: "status_element option"
  showMessage_t :: "nat option"
  timers :: "(nat \<times> nat \<times> timer_action) list"
  next_timer :: nat
  inShowMessage :: bool
  console_output :: "(channel \<times> js_value list) list"
  requests :: "request list"
  localStorage :: "js_string \<rightharpoonup> js_string"
  signupBtn :: "button option"
  loginBtn :: "button option"
  container :: "bool option"
  location_href :: js_string

text \<open>
  \<open>setTimeout\<close> returns a fresh handle and adds the timer (handle, delay in ms, what it
  will do); \<open>clearTimeout\<close> removes the timer with that handle and ignores \<open>undefined\<close>
  and handles that are not pending.
\<close>

definition setTimeout :: "timer_action \<Rightarrow> nat \<Rightarrow> world \<Rightarrow> nat \<times> world" where
  "setTimeout act delay w =
     (next_timer w,
      w\<lparr>timers := timers w @ [(next_timer w, delay, act)], next_timer := Suc (next_timer w)\<rparr>)"

definition clearTimeout :: "nat option \<Rightarrow> world \<Rightarrow> world" where
  "clearTimeout h w =
     (case h of
        None \<Rightarrow> w
      | Some i \<Rightarrow> w\<lparr>timers := filter (\<lambda>t. fst t \<noteq> i) (timers w)\<rparr>)"

section \<open>Message system\<close>

text \<open>
  \<open>showMessage(message, type)\<close>; every caller passes the type. Without the status
  element the function returns at once.
\<close>

definition showMessage :: "js_string \<Rightarrow> js_string \<Rightarrow> world \<Rightarrow> world" where
  "showMessage message type w =
     (case errorMessage w of
        None \<Rightarrow> w
      | Some el \<Rightarrow>
          (let w1 = w\<lparr>errorMessage :=
                      Some (el\<lparr>textContent := message,
                               className := ascii ''message '' @ type,
                               display := ascii ''block''\<rparr>)\<rparr>;
               w2 = clearTimeout (showMessage_t w1) w1;
               (h, w3) = setTimeout HideMessage 5000 w2
           in w3\<lparr>showMessage_t := Some h\<rparr>))"

definition showError :: "js_string \<Rightarrow> world \<Rightarrow> world" where
  "showError msg w = showMessage msg (ascii ''error'') w"

definition showSuccess :: "js_string \<Rightarrow> world \<Rightarrow> world" where
  "showSuccess msg w = showMessage msg (ascii ''success'') w"

text \<open>The hide timers that are pending, and the state in which the only one is the one
  \<open>showMessage._t\<close> names.\<close>

definition hide_timers :: "world \<Rightarrow> (nat \<times> nat \<times> timer_action) list" where
  "hide_timers w = filter (\<lambda>t. snd (snd t) = HideMessage) (timers w)"

definition timers_fresh :: "world \<Rightarrow> bool" where
  "timers_fresh w = list_all (\<lambda>t. fst t < next_timer w) (timers w)"

definition hide_tracked :: "world \<Rightarrow> bool" where
  "hide_tracked w = list_all (\<lambda>t. showMessage_t w = Some (fst t)) (hide_timers w)"

text \<open>
  A timer that fires is no longer pending and does what it was scheduled for: hide the
  status element, abort the request of its controller, or navigate.
\<close>

fun abort_at :: "nat \<Rightarrow> request list \<Rightarrow> request list" where
  "abort_at n [] = []"
| "abort_at 0 (q # qs) = q\<lparr>req_aborted := True\<rparr> # qs"
| "abort_at (Suc n) (q # qs) = q # abort_at n qs"

definition fire :: "nat \<times> nat \<times> timer_action \<Rightarrow> world \<Rightarrow> world" where
  "fire t w =
     (let w1 = w\<lparr>timers := filter (\<lambda>x. fst x \<noteq> fst t) (timers w)\<rparr>
      in case snd (snd t) of
           HideMessage \<Rightarrow>
             w1\<lparr>errorMessage := map_option (\<lambda>el. el\<lparr>display := ascii ''none''\<rparr>) (errorMessage w1)\<rparr>
         | AbortRequest r \<Rightarrow> w1\<lparr>requests := abort_at r (requests w1)\<rparr>
         | Navigate url \<Rightarrow> w1\<lparr>location_href := url\<rparr>)"

section \<open>Console mirror\<close>

text \<open>
  \<open>args.join(" ")\<close>: \<open>undefined\<close> and \<open>null\<close> are empty, an error object prints
  through \<open>Error.prototype.toString\<close>, a symbol cannot be converted.
\<close>

fun error_toString :: "js_error \<Rightarrow> js_string" where
  "error_toString (JsError n m) =
     (if n = [] then m else if m = [] then n else n @ ascii '': '' @ m)"

fun arg_string :: "js_value \<Rightarrow> js_error + js_string" where
  "arg_string Undefined = Inr []"
| "arg_string Symbol = Inl symbol_error"
| "arg_string (ErrorObject e) = Inr (error_toString e)"
| "arg_string (Json j) = element_string j"

fun join_args :: "js_value list \<Rightarrow> js_error + js_string" where
  "join_args [] = Inr []"
| "join_args [x] = arg_string x"
| "join_args (x # y # ys) =
     (case arg_string x of
        Inl e \<Rightarrow> Inl e
      | Inr s \<Rightarrow> (case join_args (y # ys) of Inl e \<Rightarrow> Inl e | Inr r \<Rightarrow> Inr (s @ ascii '' '' @ r)))"

definition originals :: "channel \<Rightarrow> js_value list \<Rightarrow> world \<Rightarrow> world" where
  "originals ch args w = w\<lparr>console_output := console_output w @ [(ch, args)]\<rparr>"

definition safeShowMessage :: "js_string \<Rightarrow> js_string \<Rightarrow> world \<Rightarrow> world" where
  "safeShowMessage msg type w =
     (if inShowMessage w then w
      else (let w1 = w\<lparr>inShowMessage := True\<rparr>;
                w2 = showMessage msg type w1
            in w2\<lparr>inShowMessage := False\<rparr>))"

definition console_log :: "js_value list \<Rightarrow> world \<Rightarrow> (js_error + unit) \<times> world" where
  "console_log args w =
     (case join_args args of
        Inl e \<Rightarrow> (Inl e, w)
      | Inr s \<Rightarrow>
          (Inr (), originals ConsoleLog args
                     (safeShowMessage (info_sign @ ascii '' '' @ s) (ascii ''success'') w)))"

definition console_warn :: "js_value list \<Rightarrow> world \<Rightarrow> (js_error + unit) \<times> world" where
  "console_warn args w =
     (case join_args args of
        Inl e \<Rightarrow> (Inl e, w)
      | Inr s \<Rightarrow>
          (Inr (), originals ConsoleWarn args
                     (safeShowMessage (warning_sign @ ascii '' '' @ s) (ascii ''error'') w)))"

definition console_error :: "js_value list \<Rightarrow> world \<Rightarrow> (js_error + unit) \<times> world" where
  "console_error args w =
     (case join_args args of
        Inl e \<Rightarrow> (Inl e, w)
      | Inr s \<Rightarrow>
          (Inr (), originals ConsoleError args
                     (safeShowMessage (cross_mark @ ascii '' '' @ s) (ascii ''error'') w)))"

section \<open>Safe fetch wrapper\<close>

text \<open>
  What the network does with one request: when the fetch settles (\<open>None\<close>: never) and
  how, with a response (status, and the body as \<open>res.json()\<close> parses it, \<open>None\<close> when it
  rejects) or with the TypeError of a network failure. The request body is the value
  handed to \<open>JSON.stringify\<close>.
\<close>

datatype fetch_outcome = Response nat "json option" | NetworkFailure js_string

record network =
  arrival :: "nat option"
  outcome :: fetch_outcome

record fetch_options =
  opt_method :: "js_string option"
  opt_body :: "json option"
  opt_headers :: "(js_string \<times> js_string) list option"

fun assign :: "js_string \<Rightarrow> js_string \<Rightarrow> (js_string \<times> js_string) list \<Rightarrow> (js_string \<times> js_string) list" where
  "assign k v [] = [(k, v)]"
| "assign k v (p # ps) = (if fst p = k then (k, v) # ps else p # assign k v ps)"

definition request_headers :: "fetch_options \<Rightarrow> (js_string \<times> js_string) list" where
  "request_headers options =
     foldl (\<lambda>h p. assign (fst p) (snd p) h)
       [(ascii ''Content-Type'', ascii ''application/json'')]
       (case opt_headers options of None \<Rightarrow> [] | Some hs \<Rightarrow> hs)"

definition is_ok :: "nat \<Rightarrow> bool" where
  "is_ok status = (200 \<le> status \<and> status \<le> 299)"

definition pick :: "json option \<Rightarrow> json option" where
  "pick v = (if truthy v then v else None)"

definition new_Error_of :: "json \<Rightarrow> js_error" where
  "new_Error_of v = (case to_string v of Inl e \<Rightarrow> e | Inr s \<Rightarrow> new_Error s)"

text \<open>What line 102 throws: \<open>new Error(data.message || data.error || `HTTP ${res.status}`)\<close>.\<close>

definition http_error :: "nat \<Rightarrow> json \<Rightarrow> js_error" where
  "http_error status data =
     (case get_prop data (ascii ''message'') of
        Inl e \<Rightarrow> e
      | Inr m \<Rightarrow>
          (case pick m of
             Some v \<Rightarrow> new_Error_of v
           | None \<Rightarrow>
               (case get_prop data (ascii ''error'') of
                  Inl e \<Rightarrow> e
                | Inr r \<Rightarrow>
                    (case pick r of
                       Some v \<Rightarrow> new_Error_of v
                     | None \<Rightarrow> new_Error (ascii ''HTTP '' @ decimal status)))))"

definition read_response :: "nat \<Rightarrow> json option \<Rightarrow> js_error + json" where
  "read_response status body =
     (case body of
        None \<Rightarrow> Inl (new_Error (ascii ''Invalid server response''))
      | Some data \<Rightarrow> if \<not> is_ok status then Inl (http_error status data) else Inr data)"

definition timed_out_message :: js_string where
  "timed_out_message = hourglass @ ascii '' Request timed out. Please try again.''"

definition safeFetch_catch :: "js_error \<Rightarrow> js_error" where
  "safeFetch_catch err =
     (if err_name err = ascii ''AbortError'' then new_Error timed_out_message else err)"

definition responds_before :: "nat \<Rightarrow> network \<Rightarrow> bool" where
  "responds_before ms net = (case arrival net of None \<Rightarrow> False | Some t \<Rightarrow> t < ms)"

text \<open>
  \<open>safeFetch(url, options, timeout)\<close>, the timeout \<open>None\<close> when the caller gives none.
  The abort timer is scheduled, the request issued, and the two race: the fetch settles
  first exactly when it settles before the timer's delay is over.
\<close>

definition default_timeout :: "nat option \<Rightarrow> nat" where
  "default_timeout timeout = (case timeout of None \<Rightarrow> 10000 | Some t \<Rightarrow> t)"

definition safeFetch ::
  "js_string \<Rightarrow> fetch_options \<Rightarrow> nat option \<Rightarrow> network \<Rightarrow> world \<Rightarrow> (js_error + json) \<times> world" where
  "safeFetch url options timeout net w =
     (let ms = default_timeout timeout;
          r = length (requests w);
          (h, w1) = setTimeout (AbortRequest r) ms w;
          w2 = w1\<lparr>requests := requests w1 @
                 [\<lparr>req_url = url, req_method = opt_method options,
                   req_headers = request_headers options, req_body = opt_body options,
                   req_aborted = False\<rparr>]\<rparr>
      in if responds_before ms net then
           (case outcome net of
              NetworkFailure m \<Rightarrow> (Inl (safeFetch_catch (new_TypeError m)), w2)
            | Response status body \<Rightarrow>
                (let w3 = clearTimeout (Some h) w2
                 in case read_response status body of
                      Inl e \<Rightarrow> (Inl (safeFetch_catch e), w3)
                    | Inr data \<Rightarrow> (Inr data, w3)))
         else (Inl (safeFetch_catch abort_error), fire (h, ms, AbortRequest r) w2))"

section \<open>Button loading helper\<close>

definition spinner_html :: js_string where
  "spinner_html = ascii ''<span class='' @ [0x22] @ ascii ''spinner'' @ [0x22] @ ascii ''></span> Loading...''"

definition setButtonLoading :: "button option \<Rightarrow> bool \<Rightarrow> js_string \<Rightarrow> button option" where
  "setButtonLoading b loading defaultText =
     (case b of
        None \<Rightarrow> None
      | Some x \<Rightarrow>
          Some (if loading then x\<lparr>disabled := True, content := InnerHTML spinner_html\<rparr>
                else x\<lparr>disabled := False, content := TextContent defaultText\<rparr>))"

section \<open>Form handlers\<close>

text \<open>
  A handler is run on the values of its form's inputs. It ends fulfilled (\<open>Inr ()\<close>) or
  rejected with an error it did not catch. \<open>try_catch_finally\<close> is the statement
  \<open>try { body } catch (err) { handler } finally { cleanup }\<close>: the cleanup runs after the
  body, and after the handler also when the handler throws.
\<close>

type_synonym 'a action = "world \<Rightarrow> (js_error + 'a) \<times> world"

definition try_catch_finally ::
  "unit action \<Rightarrow> (js_error \<Rightarrow> unit action) \<Rightarrow> (world \<Rightarrow> world) \<Rightarrow> unit action" where
  "try_catch_finally body handler cleanup w =
     (case body w of
        (Inr v, w1) \<Rightarrow> (Inr v, cleanup w1)
      | (Inl err, w1) \<Rightarrow> (case handler err w1 of (r, w2) \<Rightarrow> (r, cleanup w2)))"

definition API_URL :: js_string where
  "API_URL = ascii ''https://check-be-production.up.railway.app''"

record signup_form =
  registerUser :: js_string
  registerEmail :: js_string
  registerPass :: js_string

record login_form =
  loginUser :: js_string
  loginPass :: js_string

definition all_fields_required :: js_string where
  "all_fields_required = warning_sign @ ascii '' All fields are required.''"

definition password_too_short :: js_string where
  "password_too_short = warning_sign @ ascii '' Password must be at least 6 characters.''"

definition registration_successful :: js_string where
  "registration_successful = check_mark @ ascii '' Registration successful! You can now log in.''"

definition registration_failed :: js_string where
  "registration_failed = cross_mark @ ascii '' Registration failed. Try again.''"

definition credentials_required :: js_string where
  "credentials_required = warning_sign @ ascii '' Username and password are required.''"

definition no_token_received :: js_string where
  "no_token_received = cross_mark @ ascii '' Login failed: No token received.''"

definition login_successful :: js_string where
  "login_successful = check_mark @ ascii '' Login successful! Redirecting...''"

definition login_failed :: js_string where
  "login_failed = cross_mark @ ascii '' Login failed. Check credentials.''"

definition register_request :: "js_string \<Rightarrow> js_string \<Rightarrow> js_string \<Rightarrow> fetch_options" where
  "register_request username email password =
     \<lparr>opt_method = Some (ascii ''POST''),
      opt_body = Some (JObj [(ascii ''username'', JStr username), (ascii ''email'', JStr email),
                             (ascii ''password'', JStr password)]),
      opt_headers = None\<rparr>"

definition login_request :: "js_string \<Rightarrow> js_string \<Rightarrow> fetch_options" where
  "login_request username password =
     \<lparr>opt_method = Some (ascii ''POST''),
      opt_body = Some (JObj [(ascii ''username'', JStr username), (ascii ''password'', JStr password)]),
      opt_headers = None\<rparr>"

definition signup_try :: "js_string \<Rightarrow> js_string \<Rightarrow> js_string \<Rightarrow> network \<Rightarrow> unit action" where
  "signup_try username email password net w =
     (case safeFetch (API_URL @ ascii ''/register'') (register_request username email password) None net w of
        (Inl err, w1) \<Rightarrow> (Inl err, w1)
      | (Inr data, w1) \<Rightarrow>
          (let w2 = showSuccess registration_successful w1
           in case container w2 of
                None \<Rightarrow> (Inl (null_read_error (ascii ''classList'')), w2)
              | Some active \<Rightarrow> (Inr (), w2\<lparr>container := Some False\<rparr>)))"

definition signup_catch :: "js_error \<Rightarrow> unit action" where
  "signup_catch err w =
     (case console_error [Json (JStr (ascii ''Signup Error:'')), ErrorObject err] w of
        (Inl e, w1) \<Rightarrow> (Inl e, w1)
      | (Inr u, w1) \<Rightarrow>
          (Inr (), showError (if err_message err \<noteq> [] then err_message err else registration_failed) w1))"

definition signup_submit :: "signup_form \<Rightarrow> network \<Rightarrow> unit action" where
  "signup_submit form net w =
     (let username = trim (registerUser form);
          email = trim (registerEmail form);
          password = registerPass form
      in if username = [] \<or> email = [] \<or> password = [] then
           (Inr (), showError all_fields_required w)
         else if length password < 6 then
           (Inr (), showError password_too_short w)
         else
           try_catch_finally
             (signup_try username email password net)
             signup_catch
             (\<lambda>v. v\<lparr>signupBtn := setButtonLoading (signupBtn v) False (ascii ''Sign Up'')\<rparr>)
             (w\<lparr>signupBtn := setButtonLoading (signupBtn w) True (ascii ''Sign Up'')\<rparr>))"

text \<open>\<open>localStorage.setItem\<close> converts the value it is given to a string.\<close>

definition login_try :: "js_string \<Rightarrow> js_string \<Rightarrow> network \<Rightarrow> unit action" where
  "login_try username password net w =
     (case safeFetch (API_URL @ ascii ''/login'') (login_request username password) None net w of
        (Inl err, w1) \<Rightarrow> (Inl err, w1)
      | (Inr data, w1) \<Rightarrow>
          (case get_prop data (ascii ''token'') of
             Inl e \<Rightarrow> (Inl e, w1)
           | Inr tok \<Rightarrow>
               (case pick tok of
                  None \<Rightarrow> (Inl (new_Error no_token_received), w1)
                | Some t \<Rightarrow>
                    (case to_string t of
                       Inl e \<Rightarrow> (Inl e, w1)
                     | Inr s \<Rightarrow>
                         (let w2 = w1\<lparr>localStorage := (localStorage w1)(ascii ''todo_token'' \<mapsto> s)\<rparr>;
                              w3 = w2\<lparr>localStorage := (localStorage w2)(ascii ''todo_username'' \<mapsto> username)\<rparr>;
                              w4 = showSuccess login_successful w3;
                              (h, w5) = setTimeout (Navigate (ascii ''app.html'')) 1200 w4
                          in (Inr (), w5))))))"

definition login_catch :: "js_error \<Rightarrow> unit action" where
  "login_catch err w =
     (case console_error [Json (JStr (ascii ''Login Error:'')), ErrorObject err] w of
        (Inl e, w1) \<Rightarrow> (Inl e, w1)
      | (Inr u, w1) \<Rightarrow>
          (Inr (), showError (if err_message err \<noteq> [] then err_message err else login_failed) w1))"

definition login_submit :: "login_form \<Rightarrow> network \<Rightarrow> unit action" where
  "login_submit form net w =
     (let username = trim (loginUser form);
          password = loginPass form
      in if username = [] \<or> password = [] then
           (Inr (), showError credentials_required w)
         else
           try_catch_finally
             (login_try username password net)
             login_catch
             (\<lambda>v. v\<lparr>loginBtn := setButtonLoading (loginBtn v) False (ascii ''Sign In'')\<rparr>)
             (w\<lparr>loginBtn := setButtonLoading (loginBtn w) True (ascii ''Sign In'')\<rparr>))"

section \<open>A page to run the handlers on\<close>

text \<open>
  The document of the two forms as it loads: the status element hidden and empty, both
  submit buttons idle, the sign-up panel showing, nothing scheduled, stored or logged.
\<close>

definition fresh_page :: world where
  "fresh_page =
     \<lparr>errorMessage = Some \<lparr>textContent = [], className = ascii ''message'', display = ascii ''none''\<rparr>,
      showMessage_t = None,
      timers = [],
      next_timer = 1,
      inShowMessage = False,
      console_output = [],
      requests = [],
      localStorage = Map.empty,
      signupBtn = Some \<lparr>disabled = False, content = TextContent (ascii ''Sign Up'')\<rparr>,
      loginBtn = Some \<lparr>disabled = False, content = TextContent (ascii ''Sign In'')\<rparr>,
      container = Some True,
      location_href = ascii ''index.html''\<rparr>"

text \<open>The same page while a success message shows: its hide timer is pending.\<close>

definition page_with_message :: world where
  "page_with_message =
     fresh_page
       \<lparr>errorMessage := Some \<lparr>textContent = ascii ''saved'', className = ascii ''message success'',
                               display = ascii ''block''\<rparr>,
        showMessage_t := Some 1,
        timers := [(1, 5000, HideMessage)],
        next_timer := 2\<rparr>"

text \<open>A network that answers after 120 ms, and one that never answers.\<close>

definition answers :: "fetch_outcome \<Rightarrow> network" where
  "answers out = \<lparr>arrival = Some 120, outcome = out\<rparr>"

definition silent :: network where
  "silent = \<lparr>arrival = None, outcome = NetworkFailure (ascii ''Failed to fetch'')\<rparr>"

definition ada_signup :: signup_form where
  "ada_signup =
     \<lparr>registerUser = ascii '' ada '', registerEmail = ascii ''ada@example.org'',
      registerPass = ascii ''secret1''\<rparr>"

definition ada_login :: login_form where
  "ada_login = \<lparr>loginUser = ascii '' ada '', loginPass = ascii ''secret1''\<rparr>"

section \<open>Basic facts\<close>


lemma length_ascii [simp]: "length (ascii s) = length s"
  by (simp add: ascii_def)

lemma ascii_Nil_iff [simp]: "ascii s = [] \<longleftrightarrow> s = []"
  by (simp add: ascii_def)

lemma showMessage_absent: "errorMessage w = None \<Longrightarrow> showMessage m k w = w"
  by (simp add: showMessage_def)

lemma showMessage_present:
  assumes "errorMessage w = Some el"
  shows "showMessage m k w =
     w\<lparr>errorMessage := Some (el\<lparr>textContent := m, className := ascii ''message '' @ k,
                                display := ascii ''block''\<rparr>),
       timers := filter (\<lambda>t. Some (fst t) \<noteq> showMessage_t w) (timers w) @ [(next_timer w, 5000, HideMessage)],
       next_timer := Suc (next_timer w),
       showMessage_t := Some (next_timer w)\<rparr>"
  using assms
  by (cases "showMessage_t w") (simp_all add: showMessage_def setTimeout_def clearTimeout_def)

lemma showMessage_frame [simp]:
  "requests (showMessage m k w) = requests w"
  "localStorage (showMessage m k w) = localStorage w"
  "signupBtn (showMessage m k w) = signupBtn w"
  "loginBtn (showMessage m k w) = loginBtn w"
  "container (showMessage m k w) = container w"
  "console_output (showMessage m k w) = console_output w"
  "inShowMessage (showMessage m k w) = inShowMessage w"
  "location_href (showMessage m k w) = location_href w"
  by (cases "errorMessage w"; simp add: showMessage_absent showMessage_present)+

lemma safeShowMessage_frame [simp]:
  "requests (safeShowMessage m k w) = requests w"
  "localStorage (safeShowMessage m k w) = localStorage w"
  "signupBtn (safeShowMessage m k w) = signupBtn w"
  "loginBtn (safeShowMessage m k w) = loginBtn w"
  "container (safeShowMessage m k w) = container w"
  "console_output (safeShowMessage m k w) = console_output w"
  "inShowMessage (safeShowMessage m k w) = inShowMessage w"
  "location_href (safeShowMessage m k w) = location_href w"
  by (simp_all add: safeShowMessage_def Let_def)

lemma console_error_pair:
  "console_error [Json (JStr s), ErrorObject e] w =
     (Inr (), originals ConsoleError [Json (JStr s), ErrorObject e]
                (safeShowMessage (cross_mark @ ascii '' '' @ s @ ascii '' '' @ error_toString e) (ascii ''error'') w))"
  by (simp add: console_error_def)

lemma originals_frame [simp]:
  "requests (originals c a w) = requests w"
  "localStorage (originals c a w) = localStorage w"
  "signupBtn (originals c a w) = signupBtn w"
  "loginBtn (originals c a w) = loginBtn w"
  "container (originals c a w) = container w"
  "errorMessage (originals c a w) = errorMessage w"
  "timers (originals c a w) = timers w"
  "inShowMessage (originals c a w) = inShowMessage w"
  "location_href (originals c a w) = location_href w"
  by (simp_all add: originals_def)

lemma safeFetch_frame [simp]:
  "localStorage (snd (safeFetch u opts tmo net w)) = localStorage w"
  "signupBtn (snd (safeFetch u opts tmo net w)) = signupBtn w"
  "loginBtn (snd (safeFetch u opts tmo net w)) = loginBtn w"
  "container (snd (safeFetch u opts tmo net w)) = container w"
  "errorMessage (snd (safeFetch u opts tmo net w)) = errorMessage w"
  "console_output (snd (safeFetch u opts tmo net w)) = console_output w"
  "location_href (snd (safeFetch u opts tmo net w)) = location_href w"
  by (simp_all add: safeFetch_def Let_def setTimeout_def clearTimeout_def fire_def
        split: fetch_outcome.splits sum.splits)


lemma names_differ [simp]:
  "ascii ''Error'' \<noteq> ascii ''AbortError''"
  "ascii ''TypeError'' \<noteq> ascii ''AbortError''"
  by (simp_all add: ascii_def)

lemma safeFetch_catch_simps [simp]:
  "safeFetch_catch (new_Error m) = new_Error m"
  "safeFetch_catch (new_TypeError m) = new_TypeError m"
  "safeFetch_catch abort_error = new_Error timed_out_message"
  "safeFetch_catch not_primitive_error = not_primitive_error"
  "safeFetch_catch (null_read_error p) = null_read_error p"
  by (simp_all add: safeFetch_catch_def new_Error_def new_TypeError_def abort_error_def
        not_primitive_error_def null_read_error_def)

lemma to_string_error:
  "to_string v = Inl e \<Longrightarrow> e = not_primitive_error"
  "join_json vs = Inl e \<Longrightarrow> e = not_primitive_error"
  "element_string v = Inl e \<Longrightarrow> e = not_primitive_error"
  by (induction v and vs and v arbitrary: e and e and e rule: to_string_join_json_element_string.induct)
     (auto split: if_splits sum.splits)

lemma safeFetch_catch_new_Error_of [simp]:
  "safeFetch_catch (new_Error_of v) = new_Error_of v"
  by (cases "to_string v") (auto simp: new_Error_of_def dest: to_string_error)

lemma safeFetch_catch_http_error [simp]:
  "safeFetch_catch (http_error status data) = http_error status data"
  by (cases data) (simp_all add: http_error_def split: option.splits)

lemma safeFetch_catch_read_response:
  "read_response status body = Inl e \<Longrightarrow> safeFetch_catch e = e"
  by (auto simp: read_response_def split: option.splits if_splits)

lemma safeFetch_responded:
  assumes "responds_before (default_timeout tmo) net" "outcome net = Response status body"
  shows "fst (safeFetch u opts tmo net w) = read_response status body"
  using assms
  by (auto simp: safeFetch_def Let_def setTimeout_def split: sum.splits dest: safeFetch_catch_read_response)


lemma safeFetch_effect:
  assumes "safeFetch u opts tmo net w = (r, w1)"
  shows "localStorage w1 = localStorage w" "signupBtn w1 = signupBtn w" "loginBtn w1 = loginBtn w"
    "container w1 = container w" "errorMessage w1 = errorMessage w"
    "console_output w1 = console_output w" "location_href w1 = location_href w"
  using safeFetch_frame [of u opts tmo net w] assms by simp_all

lemma abort_at_last:
  "abort_at (length qs) (qs @ [q]) = qs @ [q\<lparr>req_aborted := True\<rparr>]"
  by (induction qs) simp_all

lemma safeFetch_requests:
  "\<exists>ab. requests (snd (safeFetch u opts tmo net w)) =
     requests w @ [\<lparr>req_url = u, req_method = opt_method opts, req_headers = request_headers opts,
                    req_body = opt_body opts, req_aborted = ab\<rparr>]"
  by (auto simp: safeFetch_def Let_def setTimeout_def clearTimeout_def fire_def abort_at_last
        split: fetch_outcome.splits sum.splits)

lemma hide_after_show:
  assumes "errorMessage w = Some el" "timers_fresh w" "hide_tracked w"
  shows "hide_timers (showMessage m k w) = [(next_timer w, 5000, HideMessage)]"
    and "timers_fresh (showMessage m k w)"
    and "hide_tracked (showMessage m k w)"
proof -
  have a: "filter (\<lambda>t. snd (snd t) = HideMessage)
             (filter (\<lambda>t. Some (fst t) \<noteq> showMessage_t w) (timers w)) = []"
    using assms(3)
    by (fastforce simp: hide_tracked_def hide_timers_def list_all_iff filter_empty_conv)
  show "hide_timers (showMessage m k w) = [(next_timer w, 5000, HideMessage)]"
    using a by (simp add: showMessage_present[OF assms(1)] hide_timers_def)
  then show "hide_tracked (showMessage m k w)"
    by (simp add: hide_tracked_def showMessage_present[OF assms(1)])
  show "timers_fresh (showMessage m k w)"
    using assms(2) by (auto simp: timers_fresh_def showMessage_present[OF assms(1)] list_all_iff)
qed

lemma trim_white_space:
  assumes "list_all is_white_space s"
  shows "trim s = []"
proof -
  have d: "dropWhile is_white_space s = []"
    using assms by (simp add: list_all_iff)
  show ?thesis unfolding trim_def d by simp
qed

lemma className_error [simp]: "ascii ''message '' @ ascii ''error'' = ascii ''message error''"
  by (simp add: ascii_def)

lemma try_catch_finally_cleanup:
  "\<exists>v. snd (try_catch_finally body handler cleanup w) = cleanup v
     \<and> (v = snd (body w) \<or> (\<exists>err. v = snd (handler err (snd (body w)))))"
proof (cases "body w")
  case (Pair r w1)
  show ?thesis
  proof (cases r)
    case (Inr u)
    have "snd (body w) = w1" using Pair by simp
    moreover have "snd (try_catch_finally body handler cleanup w) = cleanup w1"
      using Pair Inr by (simp add: try_catch_finally_def)
    ultimately show ?thesis by blast
  next
    case (Inl err)
    obtain r2 w2 where h: "handler err w1 = (r2, w2)" by (cases "handler err w1")
    have "snd (handler err (snd (body w))) = w2" using Pair h by simp
    moreover have "snd (try_catch_finally body handler cleanup w) = cleanup w2"
      using Pair Inl h by (simp add: try_catch_finally_def)
    ultimately show ?thesis by blast
  qed
qed

lemma signup_catch_frame:
  "signupBtn (snd (signup_catch err w)) = signupBtn w"
  "requests (snd (signup_catch err w)) = requests w"
  by (simp_all add: signup_catch_def console_error_pair showError_def)

lemma login_catch_frame:
  "loginBtn (snd (login_catch err w)) = loginBtn w"
  "localStorage (snd (login_catch err w)) = localStorage w"
  "requests (snd (login_catch err w)) = requests w"
  by (simp_all add: login_catch_def console_error_pair showError_def)

lemma signup_try_frame:
  "signupBtn (snd (signup_try u e p net w)) = signupBtn w"
proof (cases "safeFetch (API_URL @ ascii ''/register'') (register_request u e p) None net w")
  case (Pair r w1)
  then show ?thesis
    using safeFetch_effect [OF Pair]
    by (auto simp: signup_try_def showSuccess_def Let_def split: sum.splits option.splits)
qed

lemma login_try_frame:
  "loginBtn (snd (login_try u p net w)) = loginBtn w"
proof (cases "safeFetch (API_URL @ ascii ''/login'') (login_request u p) None net w")
  case (Pair r w1)
  then show ?thesis
    using safeFetch_effect [OF Pair]
    by (auto simp: login_try_def showSuccess_def Let_def setTimeout_def split: sum.splits option.splits prod.splits)
qed

lemma idle_after_busy:
  "setButtonLoading (setButtonLoading b True t) False t =
     map_option (\<lambda>x. x\<lparr>disabled := False, content := TextContent t\<rparr>) b"
  by (cases b) (simp_all add: setButtonLoading_def)

lemma decimal_400: "decimal 400 = ascii ''400''"
  by code_simp

lemma status_record:
  "(el :: status_element)\<lparr>textContent := a, className := b, display := c\<rparr> =
     \<lparr>textContent = a, className = b, display = c\<rparr>"
  by (cases el) simp

lemma showMessage_status:
  "errorMessage w \<noteq> None \<Longrightarrow>
   errorMessage (showMessage m k w) =
     Some \<lparr>textContent = m, className = ascii ''message '' @ k, display = ascii ''block''\<rparr>"
  by (auto simp: showMessage_present status_record)

lemma safeShowMessage_status:
  "(errorMessage (safeShowMessage m k w) = None) = (errorMessage w = None)"
  by (cases "errorMessage w") (simp_all add: safeShowMessage_def Let_def showMessage_def
        setTimeout_def clearTimeout_def split: option.splits)

lemma login_fetched:
  assumes "responds_before (default_timeout None) net" "outcome net = Response status (Some data)"
    "is_ok status"
  obtains w1 where "safeFetch u opts None net w = (Inr data, w1)"
    "localStorage w1 = localStorage w" "loginBtn w1 = loginBtn w" "errorMessage w1 = errorMessage w"
    "location_href w1 = location_href w" "signupBtn w1 = signupBtn w"
proof -
  obtain r w1 where p: "safeFetch u opts None net w = (r, w1)"
    by (cases "safeFetch u opts None net w")
  have "r = Inr data"
    using safeFetch_responded [OF assms(1,2), of u opts w] p assms(3) by (simp add: read_response_def)
  with p safeFetch_effect [OF p] that show thesis by simp
qed

lemma storage_keys_differ [simp]:
  "ascii ''todo_username'' \<noteq> ascii ''todo_token''"
  "ascii ''todo_token'' \<noteq> ascii ''todo_username''"
  by (simp_all add: ascii_def)

lemma signup_try_requests:
  "requests (snd (signup_try u e p net w)) =
     requests (snd (safeFetch (API_URL @ ascii ''/register'') (register_request u e p) None net w))"
  by (cases "safeFetch (API_URL @ ascii ''/register'') (register_request u e p) None net w")
     (auto simp: signup_try_def showSuccess_def Let_def split: sum.splits option.splits)

lemma request_headers_default [simp]:
  "request_headers (register_request u e p) = [(ascii ''Content-Type'', ascii ''application/json'')]"
  "request_headers (login_request u p) = [(ascii ''Content-Type'', ascii ''application/json'')]"
  by (simp_all add: request_headers_def register_request_def login_request_def)

lemma request_fields [simp]:
  "opt_method (register_request u e p) = Some (ascii ''POST'')"
  "opt_body (register_request u e p) =
     Some (JObj [(ascii ''username'', JStr u), (ascii ''email'', JStr e), (ascii ''password'', JStr p)])"
  "opt_method (login_request u p) = Some (ascii ''POST'')"
  "opt_body (login_request u p) = Some (JObj [(ascii ''username'', JStr u), (ascii ''password'', JStr p)])"
  by (simp_all add: register_request_def login_request_def)

lemma login_catch_shows:
  "fst (login_catch err w) = Inr ()"
  "localStorage (snd (login_catch err w)) = localStorage w"
  "errorMessage w \<noteq> None \<Longrightarrow>
     errorMessage (snd (login_catch err w)) =
       Some \<lparr>textContent = (if err_message err \<noteq> [] then err_message err else login_failed),
             className = ascii ''message error'', display = ascii ''block''\<rparr>"
  by (simp_all add: login_catch_def console_error_pair showError_def showMessage_status
        safeShowMessage_status originals_def)

lemma login_try_without_token:
  assumes "responds_before (default_timeout None) net"
    and "outcome net = Response status (Some data)" and "is_ok status"
  obtains w1 where
    "login_try u p net w =
       (case get_prop data (ascii ''token'') of
          Inl e \<Rightarrow> (Inl e, w1)
        | Inr tok \<Rightarrow> if truthy tok then login_try u p net w else (Inl (new_Error no_token_received), w1))"
    "localStorage w1 = localStorage w" "errorMessage w1 = errorMessage w"
proof -
  obtain w1 where f: "safeFetch (API_URL @ ascii ''/login'') (login_request u p) None net w = (Inr data, w1)"
    and st: "localStorage w1 = localStorage w" "errorMessage w1 = errorMessage w"
    using login_fetched [OF assms] by metis
  have "login_try u p net w =
       (case get_prop data (ascii ''token'') of
          Inl e \<Rightarrow> (Inl e, w1)
        | Inr tok \<Rightarrow> if truthy tok then login_try u p net w else (Inl (new_Error no_token_received), w1))"
    using f by (auto simp: login_try_def pick_def split: sum.splits)
  with st that show thesis by blast
qed

lemma login_failure:
  assumes "trim (loginUser form) \<noteq> []" and "loginPass form \<noteq> []"
    and "login_try (trim (loginUser form)) (loginPass form) net
           (w\<lparr>loginBtn := setButtonLoading (loginBtn w) True (ascii ''Sign In'')\<rparr>) = (Inl err, w1)"
  shows "fst (login_submit form net w) = Inr ()"
    and "localStorage (snd (login_submit form net w)) = localStorage w1"
    and "errorMessage w1 \<noteq> None \<Longrightarrow>
           errorMessage (snd (login_submit form net w)) =
             Some \<lparr>textContent = (if err_message err \<noteq> [] then err_message err else login_failed),
                   className = ascii ''message error'', display = ascii ''block''\<rparr>"
proof -
  have run: "login_submit form net w =
      (case login_catch err w1 of
         (r, w2) \<Rightarrow> (r, w2\<lparr>loginBtn := setButtonLoading (loginBtn w2) False (ascii ''Sign In'')\<rparr>))"
    using assms by (simp add: login_submit_def Let_def try_catch_finally_def)
  show "fst (login_submit form net w) = Inr ()"
    using login_catch_shows(1) [of err w1] by (simp add: run case_prod_beta)
  show "localStorage (snd (login_submit form net w)) = localStorage w1"
    using login_catch_shows(2) [of err w1] by (simp add: run case_prod_beta)
  show "errorMessage (snd (login_submit form net w)) =
             Some \<lparr>textContent = (if err_message err \<noteq> [] then err_message err else login_failed),
                   className = ascii ''message error'', display = ascii ''block''\<rparr>"
    if "errorMessage w1 \<noteq> None"
    using login_catch_shows(3) [of w1 err] that by (simp add: run case_prod_beta)
qed

lemma login_without_token:
  assumes "trim (loginUser form) \<noteq> []" and "loginPass form \<noteq> []"
    and "responds_before (default_timeout None) net"
    and "outcome net = Response status (Some data)" and "is_ok status"
    and "get_prop data (ascii ''token'') = Inr tok" and "\<not> truthy tok"
  shows "fst (login_submit form net w) = Inr ()"
    and "localStorage (snd (login_submit form net w)) = localStorage w"
    and "errorMessage w \<noteq> None \<Longrightarrow>
           errorMessage (snd (login_submit form net w)) =
             Some \<lparr>textContent = no_token_received, className = ascii ''message error'',
                   display = ascii ''block''\<rparr>"
proof -
  let ?busy = "w\<lparr>loginBtn := setButtonLoading (loginBtn w) True (ascii ''Sign In'')\<rparr>"
  obtain w1 where t0: "login_try (trim (loginUser form)) (loginPass form) net ?busy =
       (case get_prop data (ascii ''token'') of
          Inl e \<Rightarrow> (Inl e, w1)
        | Inr tok \<Rightarrow> if truthy tok then login_try (trim (loginUser form)) (loginPass form) net ?busy
                     else (Inl (new_Error no_token_received), w1))"
    and st0: "localStorage w1 = localStorage ?busy" "errorMessage w1 = errorMessage ?busy"
    by (rule login_try_without_token [OF assms(3,4,5), of "trim (loginUser form)" "loginPass form" ?busy])
  have t: "login_try (trim (loginUser form)) (loginPass form) net ?busy =
      (Inl (new_Error no_token_received), w1)"
    using t0 assms(6,7) by simp
  have m: "err_message (new_Error no_token_received) = no_token_received" "no_token_received \<noteq> []"
    by (simp_all add: new_Error_def no_token_received_def cross_mark_def)
  show "fst (login_submit form net w) = Inr ()"
    by (rule login_failure(1) [OF assms(1,2) t])
  show "localStorage (snd (login_submit form net w)) = localStorage w"
    using login_failure(2) [OF assms(1,2) t] st0 by simp
  show "errorMessage (snd (login_submit form net w)) =
             Some \<lparr>textContent = no_token_received, className = ascii ''message error'',
                   display = ascii ''block''\<rparr>" if "errorMessage w \<noteq> None"
    using login_failure(3) [OF assms(1,2) t] st0 that m by simp
qed

lemma ada_trimmed: "trim (ascii '' ada '') = ascii ''ada''"
  by (simp add: trim_def ascii_def is_white_space_def)

lemma answers_in_time [simp]:
  "responds_before (default_timeout None) (answers out)"
  "outcome (answers out) = out"
  by (simp_all add: responds_before_def default_timeout_def answers_def)

lemma mirror_guard_skips: "inShowMessage w \<Longrightarrow> safeShowMessage m k w = w"
  by (simp add: safeShowMessage_def)

lemma mirror_guard_runs: "\<not> inShowMessage w \<Longrightarrow> safeShowMessage m k w = showMessage m k w"
  by (cases "errorMessage w")
     (simp_all add: safeShowMessage_def Let_def showMessage_def setTimeout_def clearTimeout_def
        split: option.splits)

lemma console_forwards:
  assumes "join_args args = Inr s"
  shows "console_output (snd (console_log args w)) = console_output w @ [(ConsoleLog, args)]"
    and "console_output (snd (console_warn args w)) = console_output w @ [(ConsoleWarn, args)]"
    and "console_output (snd (console_error args w)) = console_output w @ [(ConsoleError, args)]"
  using assms by (simp_all add: console_log_def console_warn_def console_error_def originals_def)

lemma console_nested_call_only_logs:
  assumes "join_args args = Inr s" and "inShowMessage w"
  shows "console_log args w = (Inr (), originals ConsoleLog args w)"
    and "console_warn args w = (Inr (), originals ConsoleWarn args w)"
    and "console_error args w = (Inr (), originals ConsoleError args w)"
  using assms by (simp_all add: console_log_def console_warn_def console_error_def mirror_guard_skips)

lemma fresh_page_fields [simp]:
  "errorMessage fresh_page =
     Some \<lparr>textContent = [], className = ascii ''message'', display = ascii ''none''\<rparr>"
  "showMessage_t fresh_page = None"
  "timers fresh_page = []"
  "next_timer fresh_page = 1"
  "inShowMessage fresh_page = False"
  "console_output fresh_page = []"
  "requests fresh_page = []"
  "localStorage fresh_page = Map.empty"
  "signupBtn fresh_page = Some \<lparr>disabled = False, content = TextContent (ascii ''Sign Up'')\<rparr>"
  "loginBtn fresh_page = Some \<lparr>disabled = False, content = TextContent (ascii ''Sign In'')\<rparr>"
  "container fresh_page = Some True"
  "location_href fresh_page = ascii ''index.html''"
  by (simp_all add: fresh_page_def)

section \<open>Message display\<close>

text \<open>
  C8. There is one status element, so at most one message shows. Every call of
  \<open>showMessage\<close> on a page that has the element overwrites its text and its class with
  the new message and kind, makes it visible, cancels the hide timer that
  \<open>showMessage._t\<close> names and schedules a new one after 5000 ms; where the pending hide
  timers were tracked by \<open>showMessage._t\<close>, the new timer is the only hide timer pending
  afterwards. On a page without the element the call changes nothing and cannot fail
  (the function returns a page, never an error).
\<close>

theorem showMessage_single_status:
  "(errorMessage w = None \<longrightarrow> showMessage m k w = w)
   \<and> (\<forall>el. errorMessage w = Some el \<longrightarrow>
        errorMessage (showMessage m k w) =
          Some (el\<lparr>textContent := m, className := ascii ''message '' @ k, display := ascii ''block''\<rparr>)
        \<and> timers (showMessage m k w) =
            filter (\<lambda>t. Some (fst t) \<noteq> showMessage_t w) (timers w) @ [(next_timer w, 5000, HideMessage)]
        \<and> showMessage_t (showMessage m k w) = Some (next_timer w)
        \<and> (timers_fresh w \<and> hide_tracked w \<longrightarrow>
             hide_timers (showMessage m k w) = [(next_timer w, 5000, HideMessage)]
             \<and> timers_fresh (showMessage m k w) \<and> hide_tracked (showMessage m k w)))"
proof (intro conjI allI impI)
  assume "errorMessage w = None"
  then show "showMessage m k w = w" by (rule showMessage_absent)
next
  fix el assume el: "errorMessage w = Some el"
  show "errorMessage (showMessage m k w) =
          Some (el\<lparr>textContent := m, className := ascii ''message '' @ k, display := ascii ''block''\<rparr>)"
    by (simp add: showMessage_present [OF el])
  show "timers (showMessage m k w) =
          filter (\<lambda>t. Some (fst t) \<noteq> showMessage_t w) (timers w) @ [(next_timer w, 5000, HideMessage)]"
    by (simp add: showMessage_present [OF el])
  show "showMessage_t (showMessage m k w) = Some (next_timer w)"
    by (simp add: showMessage_present [OF el])
  assume inv: "timers_fresh w \<and> hide_tracked w"
  show "hide_timers (showMessage m k w) = [(next_timer w, 5000, HideMessage)]"
    using hide_after_show(1) [OF el] inv by simp
  show "timers_fresh (showMessage m k w)"
    using hide_after_show(2) [OF el] inv by simp
  show "hide_tracked (showMessage m k w)"
    using hide_after_show(3) [OF el] inv by simp
qed

theorem showMessage_single_status_witness:
  "errorMessage (fresh_page\<lparr>errorMessage := None\<rparr>) = None
   \<and> showMessage (ascii ''hello'') (ascii ''error'') (fresh_page\<lparr>errorMessage := None\<rparr>)
       = fresh_page\<lparr>errorMessage := None\<rparr>
   \<and> errorMessage page_with_message =
       Some \<lparr>textContent = ascii ''saved'', className = ascii ''message success'', display = ascii ''block''\<rparr>
   \<and> timers_fresh page_with_message \<and> hide_tracked page_with_message
   \<and> errorMessage (showMessage (ascii ''hello'') (ascii ''error'') page_with_message) =
       Some \<lparr>textContent = ascii ''hello'', className = ascii ''message error'', display = ascii ''block''\<rparr>
   \<and> timers (showMessage (ascii ''hello'') (ascii ''error'') page_with_message) = [(2, 5000, HideMessage)]
   \<and> showMessage_t (showMessage (ascii ''hello'') (ascii ''error'') page_with_message) = Some 2
   \<and> hide_timers (showMessage (ascii ''hello'') (ascii ''error'') page_with_message) = [(2, 5000, HideMessage)]"
  using showMessage_single_status [of "fresh_page\<lparr>errorMessage := None\<rparr>" "ascii ''hello''" "ascii ''error''"]
    showMessage_single_status [of page_with_message "ascii ''hello''" "ascii ''error''"]
  by (simp add: page_with_message_def fresh_page_def timers_fresh_def hide_tracked_def hide_timers_def)

section \<open>Network wrapper\<close>

text \<open>
  C4. Whenever a response arrives before the timeout and its body cannot be parsed as
  JSON, \<open>safeFetch\<close> fails with the error \<open>Invalid server response\<close>, whatever the
  status is, 2xx included.
\<close>

theorem safeFetch_invalid_body:
  assumes "responds_before (default_timeout timeout) net"
    and "outcome net = Response status None"
  shows "fst (safeFetch url options timeout net w) = Inl (new_Error (ascii ''Invalid server response''))"
  using safeFetch_responded [OF assms] by (simp add: read_response_def)

theorem safeFetch_invalid_body_witness:
  "responds_before (default_timeout None) (answers (Response 200 None))
   \<and> outcome (answers (Response 200 None)) = Response 200 None
   \<and> fst (safeFetch (API_URL @ ascii ''/login'') (login_request (ascii ''ada'') (ascii ''secret1'')) None
            (answers (Response 200 None)) fresh_page)
       = Inl (new_Error (ascii ''Invalid server response''))"
  using safeFetch_invalid_body [of None "answers (Response 200 None)" 200]
  by (simp add: responds_before_def default_timeout_def answers_def)

text \<open>
  C3 (as amended). Whenever a response arrives before the timeout with a status outside
  200..299 and a body that parses to a value other than \<open>null\<close> (so that its \<open>message\<close>
  and \<open>error\<close> can be read), \<open>safeFetch\<close> takes the body's \<open>message\<close> when that is truthy,
  else its \<open>error\<close> when that is truthy, and fails with an error whose message is the
  string that value converts to; when neither is truthy it fails with the string \<open>HTTP\<close>
  followed by the status. In particular a body whose \<open>message\<close> is a non-empty string \<open>X\<close>
  fails with the message \<open>X\<close>; an empty \<open>message\<close> is falsy and falls through.
\<close>

theorem safeFetch_http_error_message:
  assumes "responds_before (default_timeout timeout) net"
    and "outcome net = Response status (Some data)"
    and "\<not> is_ok status"
    and "get_prop data (ascii ''message'') = Inr m"
    and "get_prop data (ascii ''error'') = Inr e"
  shows "(\<forall>v s. m = Some v \<and> truthy m \<and> to_string v = Inr s \<longrightarrow>
            fst (safeFetch url options timeout net w) = Inl (new_Error s))
       \<and> (\<forall>v s. \<not> truthy m \<and> e = Some v \<and> truthy e \<and> to_string v = Inr s \<longrightarrow>
            fst (safeFetch url options timeout net w) = Inl (new_Error s))
       \<and> (\<not> truthy m \<and> \<not> truthy e \<longrightarrow>
            fst (safeFetch url options timeout net w) = Inl (new_Error (ascii ''HTTP '' @ decimal status)))
       \<and> (\<forall>X. m = Some (JStr X) \<and> X \<noteq> [] \<longrightarrow>
            fst (safeFetch url options timeout net w) = Inl (new_Error X))"
proof -
  have r: "fst (safeFetch url options timeout net w) = Inl (http_error status data)"
    using safeFetch_responded [OF assms(1,2)] assms(3) by (simp add: read_response_def)
  show ?thesis
    unfolding r using assms(4,5)
    by (auto simp: http_error_def pick_def new_Error_of_def)
qed

theorem safeFetch_empty_message_counterexample:
  "fst (safeFetch (API_URL @ ascii ''/login'') (login_request (ascii ''ada'') (ascii ''secret1'')) None
          (answers (Response 400 (Some (JObj [(ascii ''message'', JStr [])])))) fresh_page)
     = Inl (new_Error (ascii ''HTTP 400''))
   \<and> fst (safeFetch (API_URL @ ascii ''/login'') (login_request (ascii ''ada'') (ascii ''secret1'')) None
          (answers (Response 400 (Some (JObj [(ascii ''message'', JStr [])])))) fresh_page)
     \<noteq> Inl (new_Error [])"
proof -
  have "fst (safeFetch (API_URL @ ascii ''/login'') (login_request (ascii ''ada'') (ascii ''secret1'')) None
          (answers (Response 400 (Some (JObj [(ascii ''message'', JStr [])])))) fresh_page)
     = read_response 400 (Some (JObj [(ascii ''message'', JStr [])]))"
    by (rule safeFetch_responded) simp_all
  then show ?thesis
    by (simp add: read_response_def is_ok_def http_error_def own_member_def pick_def decimal_400
          new_Error_def ascii_def)
qed

theorem safeFetch_http_error_message_witness:
  "responds_before (default_timeout None) (answers (Response 404 (Some (JObj [(ascii ''message'', JStr (ascii ''No such user''))]))))
   \<and> \<not> is_ok 404
   \<and> get_prop (JObj [(ascii ''message'', JStr (ascii ''No such user''))]) (ascii ''message'')
        = Inr (Some (JStr (ascii ''No such user'')))
   \<and> truthy (Some (JStr (ascii ''No such user'')))
   \<and> fst (safeFetch (API_URL @ ascii ''/login'') (login_request (ascii ''ada'') (ascii ''secret1'')) None
          (answers (Response 404 (Some (JObj [(ascii ''message'', JStr (ascii ''No such user''))])))) fresh_page)
       = Inl (new_Error (ascii ''No such user''))
   \<and> get_prop (JObj [(ascii ''message'', JStr []), (ascii ''error'', JStr (ascii ''Locked''))]) (ascii ''error'')
        = Inr (Some (JStr (ascii ''Locked'')))
   \<and> \<not> truthy (Some (JStr []))
   \<and> to_string (JStr (ascii ''Locked'')) = Inr (ascii ''Locked'')
   \<and> fst (safeFetch (API_URL @ ascii ''/login'') (login_request (ascii ''ada'') (ascii ''secret1'')) None
          (answers (Response 404 (Some (JObj [(ascii ''message'', JStr []), (ascii ''error'', JStr (ascii ''Locked''))]))))
          fresh_page)
       = Inl (new_Error (ascii ''Locked''))
   \<and> get_prop (JArr []) (ascii ''message'') = Inr None
   \<and> fst (safeFetch (API_URL @ ascii ''/login'') (login_request (ascii ''ada'') (ascii ''secret1'')) None
          (answers (Response 404 (Some (JArr [])))) fresh_page)
       = Inl (new_Error (ascii ''HTTP '' @ decimal 404))
   \<and> truthy (Some (JNum (ascii ''1e+21'')))
   \<and> to_string (JNum (ascii ''1e+21'')) = Inr (ascii ''1e+21'')
   \<and> fst (safeFetch (API_URL @ ascii ''/login'') (login_request (ascii ''ada'') (ascii ''secret1'')) None
          (answers (Response 400 (Some (JObj [(ascii ''message'', JNum (ascii ''1e+21''))])))) fresh_page)
       = Inl (new_Error (ascii ''1e+21''))"
  using
    safeFetch_http_error_message [of None
      "answers (Response 404 (Some (JObj [(ascii ''message'', JStr (ascii ''No such user''))])))" 404
      "JObj [(ascii ''message'', JStr (ascii ''No such user''))]"
      "Some (JStr (ascii ''No such user''))" None
      "API_URL @ ascii ''/login''" "login_request (ascii ''ada'') (ascii ''secret1'')" fresh_page]
    safeFetch_http_error_message [of None
      "answers (Response 404 (Some (JObj [(ascii ''message'', JStr []), (ascii ''error'', JStr (ascii ''Locked''))])))" 404
      "JObj [(ascii ''message'', JStr []), (ascii ''error'', JStr (ascii ''Locked''))]"
      "Some (JStr [])" "Some (JStr (ascii ''Locked''))"
      "API_URL @ ascii ''/login''" "login_request (ascii ''ada'') (ascii ''secret1'')" fresh_page]
    safeFetch_http_error_message [of None
      "answers (Response 404 (Some (JArr [])))" 404 "JArr []" None None
      "API_URL @ ascii ''/login''" "login_request (ascii ''ada'') (ascii ''secret1'')" fresh_page]
    safeFetch_http_error_message [of None
      "answers (Response 400 (Some (JObj [(ascii ''message'', JNum (ascii ''1e+21''))])))" 400
      "JObj [(ascii ''message'', JNum (ascii ''1e+21''))]"
      "Some (JNum (ascii ''1e+21''))" None
      "API_URL @ ascii ''/login''" "login_request (ascii ''ada'') (ascii ''secret1'')" fresh_page]
  by (simp add: is_ok_def own_member_def ascii_def)



section \<open>Form handlers: validation, cleanup, login\<close>

text \<open>
  C6. A signup submission whose trimmed username, trimmed email or password is empty, or
  whose password is shorter than 6, does nothing but call \<open>showError\<close> with the message
  of its case (all fields required; password too short): no request is issued, the
  submit button is left as it was, and where the page has the status element it shows
  that message as an error.
\<close>

theorem signup_validation_local:
  assumes "trim (registerUser form) = [] \<or> trim (registerEmail form) = []
           \<or> registerPass form = [] \<or> length (registerPass form) < 6"
  shows "signup_submit form net w =
           (Inr (), showError (if trim (registerUser form) = [] \<or> trim (registerEmail form) = []
                                   \<or> registerPass form = []
                                then all_fields_required else password_too_short) w)
       \<and> requests (snd (signup_submit form net w)) = requests w
       \<and> signupBtn (snd (signup_submit form net w)) = signupBtn w
       \<and> (errorMessage w \<noteq> None \<longrightarrow>
             errorMessage (snd (signup_submit form net w)) =
               Some \<lparr>textContent = (if trim (registerUser form) = [] \<or> trim (registerEmail form) = []
                                          \<or> registerPass form = []
                                       then all_fields_required else password_too_short),
                     className = ascii ''message error'', display = ascii ''block''\<rparr>)"
  using assms
  by (auto simp: signup_submit_def Let_def showError_def showMessage_status)

theorem signup_validation_local_witness:
  "trim (registerUser (ada_signup\<lparr>registerUser := ascii ''   ''\<rparr>)) = []
   \<and> signup_submit (ada_signup\<lparr>registerUser := ascii ''   ''\<rparr>) silent fresh_page
       = (Inr (), showError all_fields_required fresh_page)
   \<and> requests (snd (signup_submit (ada_signup\<lparr>registerUser := ascii ''   ''\<rparr>) silent fresh_page)) = []
   \<and> signupBtn (snd (signup_submit (ada_signup\<lparr>registerUser := ascii ''   ''\<rparr>) silent fresh_page))
       = Some \<lparr>disabled = False, content = TextContent (ascii ''Sign Up'')\<rparr>
   \<and> errorMessage (snd (signup_submit (ada_signup\<lparr>registerUser := ascii ''   ''\<rparr>) silent fresh_page))
       = Some \<lparr>textContent = all_fields_required, className = ascii ''message error'',
               display = ascii ''block''\<rparr>
   \<and> length (registerPass (ada_signup\<lparr>registerPass := ascii ''abc''\<rparr>)) < 6
   \<and> errorMessage (snd (signup_submit (ada_signup\<lparr>registerPass := ascii ''abc''\<rparr>) silent fresh_page))
       = Some \<lparr>textContent = password_too_short, className = ascii ''message error'',
               display = ascii ''block''\<rparr>
   \<and> requests (snd (signup_submit (ada_signup\<lparr>registerPass := ascii ''abc''\<rparr>) silent fresh_page)) = []"
  using
    signup_validation_local [of "ada_signup\<lparr>registerUser := ascii ''   ''\<rparr>" silent fresh_page]
    signup_validation_local [of "ada_signup\<lparr>registerPass := ascii ''abc''\<rparr>" silent fresh_page]
  by (simp add: ada_signup_def showError_def showMessage_status trim_def is_white_space_def ascii_def)

text \<open>
  C7. A signup or login submission that passes validation ends, whatever the network
  does and whichever of the try block and the catch block throws, with its submit button
  enabled and labelled \<open>Sign Up\<close> (\<open>Sign In\<close>): the \<open>finally\<close> block runs last.
\<close>

theorem submit_button_restored:
  "(trim (registerUser sf) \<noteq> [] \<and> trim (registerEmail sf) \<noteq> [] \<and> registerPass sf \<noteq> []
      \<and> 6 \<le> length (registerPass sf) \<longrightarrow>
        signupBtn (snd (signup_submit sf net w)) =
          map_option (\<lambda>b. b\<lparr>disabled := False, content := TextContent (ascii ''Sign Up'')\<rparr>) (signupBtn w))
   \<and> (trim (loginUser lf) \<noteq> [] \<and> loginPass lf \<noteq> [] \<longrightarrow>
        loginBtn (snd (login_submit lf net w)) =
          map_option (\<lambda>b. b\<lparr>disabled := False, content := TextContent (ascii ''Sign In'')\<rparr>) (loginBtn w))"
proof (intro conjI impI)
  assume v: "trim (registerUser sf) \<noteq> [] \<and> trim (registerEmail sf) \<noteq> [] \<and> registerPass sf \<noteq> []
      \<and> 6 \<le> length (registerPass sf)"
  let ?busy = "w\<lparr>signupBtn := setButtonLoading (signupBtn w) True (ascii ''Sign Up'')\<rparr>"
  let ?body = "signup_try (trim (registerUser sf)) (trim (registerEmail sf)) (registerPass sf) net"
  let ?cleanup = "\<lambda>v. v\<lparr>signupBtn := setButtonLoading (signupBtn v) False (ascii ''Sign Up'')\<rparr>"
  have run: "signup_submit sf net w = try_catch_finally ?body signup_catch ?cleanup ?busy"
    using v by (simp add: signup_submit_def Let_def)
  obtain x where x: "snd (try_catch_finally ?body signup_catch ?cleanup ?busy) = ?cleanup x"
    and xs: "x = snd (?body ?busy) \<or> (\<exists>err. x = snd (signup_catch err (snd (?body ?busy))))"
    using try_catch_finally_cleanup [of ?body signup_catch ?cleanup ?busy] by blast
  have "signupBtn x = signupBtn ?busy"
    using xs by (auto simp: signup_try_frame signup_catch_frame)
  then show "signupBtn (snd (signup_submit sf net w)) =
          map_option (\<lambda>b. b\<lparr>disabled := False, content := TextContent (ascii ''Sign Up'')\<rparr>) (signupBtn w)"
    by (simp add: run x idle_after_busy)
next
  assume v: "trim (loginUser lf) \<noteq> [] \<and> loginPass lf \<noteq> []"
  let ?busy = "w\<lparr>loginBtn := setButtonLoading (loginBtn w) True (ascii ''Sign In'')\<rparr>"
  let ?body = "login_try (trim (loginUser lf)) (loginPass lf) net"
  let ?cleanup = "\<lambda>v. v\<lparr>loginBtn := setButtonLoading (loginBtn v) False (ascii ''Sign In'')\<rparr>"
  have run: "login_submit lf net w = try_catch_finally ?body login_catch ?cleanup ?busy"
    using v by (simp add: login_submit_def Let_def)
  obtain x where x: "snd (try_catch_finally ?body login_catch ?cleanup ?busy) = ?cleanup x"
    and xs: "x = snd (?body ?busy) \<or> (\<exists>err. x = snd (login_catch err (snd (?body ?busy))))"
    using try_catch_finally_cleanup [of ?body login_catch ?cleanup ?busy] by blast
  have "loginBtn x = loginBtn ?busy"
    using xs by (auto simp: login_try_frame login_catch_frame)
  then show "loginBtn (snd (login_submit lf net w)) =
          map_option (\<lambda>b. b\<lparr>disabled := False, content := TextContent (ascii ''Sign In'')\<rparr>) (loginBtn w)"
    by (simp add: run x idle_after_busy)
qed

theorem submit_button_restored_witness:
  "trim (registerUser ada_signup) \<noteq> [] \<and> trim (registerEmail ada_signup) \<noteq> []
   \<and> registerPass ada_signup \<noteq> [] \<and> 6 \<le> length (registerPass ada_signup)
   \<and> signupBtn (snd (signup_submit ada_signup silent
        (fresh_page\<lparr>signupBtn := Some \<lparr>disabled = True, content = InnerHTML spinner_html\<rparr>\<rparr>)))
       = Some \<lparr>disabled = False, content = TextContent (ascii ''Sign Up'')\<rparr>
   \<and> trim (loginUser ada_login) \<noteq> [] \<and> loginPass ada_login \<noteq> []
   \<and> loginBtn (snd (login_submit ada_login silent
        (fresh_page\<lparr>signupBtn := Some \<lparr>disabled = True, content = InnerHTML spinner_html\<rparr>\<rparr>)))
       = Some \<lparr>disabled = False, content = TextContent (ascii ''Sign In'')\<rparr>"
  using submit_button_restored [where sf = ada_signup and lf = ada_login and net = silent
      and w = "fresh_page\<lparr>signupBtn := Some \<lparr>disabled = True, content = InnerHTML spinner_html\<rparr>\<rparr>"]
  by (simp add: ada_signup_def ada_login_def trim_def is_white_space_def ascii_def)

text \<open>
  C1. A login submission with a non-empty trimmed username and a non-empty password, whose
  request is answered in time with a 2xx status and a body whose \<open>token\<close> is \<open>abc\<close>, is
  fulfilled; afterwards \<open>localStorage\<close> holds \<open>todo_token = abc\<close> and \<open>todo_username\<close> =
  the trimmed username, a timer that navigates to \<open>app.html\<close> is pending with a delay of
  1200 ms, and the page has not navigated yet.
\<close>

theorem login_success_persists:
  assumes "trim (loginUser form) \<noteq> []" and "loginPass form \<noteq> []"
    and "responds_before (default_timeout None) net"
    and "outcome net = Response status (Some data)" and "is_ok status"
    and "get_prop data (ascii ''token'') = Inr (Some (JStr (ascii ''abc'')))"
  shows "fst (login_submit form net w) = Inr ()
       \<and> localStorage (snd (login_submit form net w)) (ascii ''todo_token'') = Some (ascii ''abc'')
       \<and> localStorage (snd (login_submit form net w)) (ascii ''todo_username'') = Some (trim (loginUser form))
       \<and> (\<exists>h. (h, 1200, Navigate (ascii ''app.html'')) \<in> set (timers (snd (login_submit form net w))))
       \<and> location_href (snd (login_submit form net w)) = location_href w"
proof -
  let ?busy = "w\<lparr>loginBtn := setButtonLoading (loginBtn w) True (ascii ''Sign In'')\<rparr>"
  obtain w1 where f: "safeFetch (API_URL @ ascii ''/login'')
        (login_request (trim (loginUser form)) (loginPass form)) None net ?busy = (Inr data, w1)"
    and st: "localStorage w1 = localStorage ?busy" and loc: "location_href w1 = location_href ?busy"
    using login_fetched [OF assms(3,4,5)] by metis
  show ?thesis
    using assms(1,2,6) f st loc
    by (auto simp: login_submit_def Let_def try_catch_finally_def login_try_def pick_def
          showSuccess_def setTimeout_def split: prod.splits)
qed

theorem login_success_persists_witness:
  "trim (loginUser ada_login) = ascii ''ada'' \<and> loginPass ada_login \<noteq> []
   \<and> is_ok 200
   \<and> get_prop (JObj [(ascii ''token'', JStr (ascii ''abc''))]) (ascii ''token'') = Inr (Some (JStr (ascii ''abc'')))
   \<and> fst (login_submit ada_login (answers (Response 200 (Some (JObj [(ascii ''token'', JStr (ascii ''abc''))]))))
          fresh_page) = Inr ()
   \<and> localStorage (snd (login_submit ada_login
         (answers (Response 200 (Some (JObj [(ascii ''token'', JStr (ascii ''abc''))])))) fresh_page))
        (ascii ''todo_token'') = Some (ascii ''abc'')
   \<and> localStorage (snd (login_submit ada_login
         (answers (Response 200 (Some (JObj [(ascii ''token'', JStr (ascii ''abc''))])))) fresh_page))
        (ascii ''todo_username'') = Some (ascii ''ada'')
   \<and> (\<exists>h. (h, 1200, Navigate (ascii ''app.html'')) \<in> set (timers (snd (login_submit ada_login
         (answers (Response 200 (Some (JObj [(ascii ''token'', JStr (ascii ''abc''))])))) fresh_page))))
   \<and> location_href (snd (login_submit ada_login
         (answers (Response 200 (Some (JObj [(ascii ''token'', JStr (ascii ''abc''))])))) fresh_page))
       = ascii ''index.html''"
  using login_success_persists [of ada_login
      "answers (Response 200 (Some (JObj [(ascii ''token'', JStr (ascii ''abc''))])))" 200
      "JObj [(ascii ''token'', JStr (ascii ''abc''))]" fresh_page]
  by (simp add: ada_login_def ada_trimmed is_ok_def own_member_def)

text \<open>
  C10. The signup handler trims the username and the email and leaves the password as
  typed. With a username and an email that are not empty after trimming, a password of
  six or more white-space characters passes validation and is sent as it is in the
  request body; a username or an email of white space only is rejected as empty, with no
  request.
\<close>

theorem signup_password_not_trimmed:
  "(trim (registerUser form) \<noteq> [] \<and> trim (registerEmail form) \<noteq> []
      \<and> list_all is_white_space (registerPass form) \<and> 6 \<le> length (registerPass form) \<longrightarrow>
      (\<exists>ab. requests (snd (signup_submit form net w)) =
         requests w @
           [\<lparr>req_url = API_URL @ ascii ''/register'', req_method = Some (ascii ''POST''),
             req_headers = [(ascii ''Content-Type'', ascii ''application/json'')],
             req_body = Some (JObj [(ascii ''username'', JStr (trim (registerUser form))),
                                    (ascii ''email'', JStr (trim (registerEmail form))),
                                    (ascii ''password'', JStr (registerPass form))]),
             req_aborted = ab\<rparr>]))
   \<and> (list_all is_white_space (registerUser form) \<or> list_all is_white_space (registerEmail form) \<longrightarrow>
        signup_submit form net w = (Inr (), showError all_fields_required w)
        \<and> requests (snd (signup_submit form net w)) = requests w)"
proof (intro conjI impI)
  assume v: "trim (registerUser form) \<noteq> [] \<and> trim (registerEmail form) \<noteq> []
      \<and> list_all is_white_space (registerPass form) \<and> 6 \<le> length (registerPass form)"
  then have p: "registerPass form \<noteq> []" by auto
  let ?busy = "w\<lparr>signupBtn := setButtonLoading (signupBtn w) True (ascii ''Sign Up'')\<rparr>"
  let ?body = "signup_try (trim (registerUser form)) (trim (registerEmail form)) (registerPass form) net"
  let ?cleanup = "\<lambda>v. v\<lparr>signupBtn := setButtonLoading (signupBtn v) False (ascii ''Sign Up'')\<rparr>"
  have run: "signup_submit form net w = try_catch_finally ?body signup_catch ?cleanup ?busy"
    using v p by (simp add: signup_submit_def Let_def)
  obtain x where x: "snd (try_catch_finally ?body signup_catch ?cleanup ?busy) = ?cleanup x"
    and xs: "x = snd (?body ?busy) \<or> (\<exists>err. x = snd (signup_catch err (snd (?body ?busy))))"
    using try_catch_finally_cleanup [of ?body signup_catch ?cleanup ?busy] by blast
  have "requests x = requests (snd (?body ?busy))"
    using xs by (auto simp: signup_catch_frame)
  then have "requests (snd (signup_submit form net w)) =
      requests (snd (safeFetch (API_URL @ ascii ''/register'')
         (register_request (trim (registerUser form)) (trim (registerEmail form)) (registerPass form))
         None net ?busy))"
    by (simp add: run x signup_try_requests)
  then show "\<exists>ab. requests (snd (signup_submit form net w)) =
         requests w @
           [\<lparr>req_url = API_URL @ ascii ''/register'', req_method = Some (ascii ''POST''),
             req_headers = [(ascii ''Content-Type'', ascii ''application/json'')],
             req_body = Some (JObj [(ascii ''username'', JStr (trim (registerUser form))),
                                    (ascii ''email'', JStr (trim (registerEmail form))),
                                    (ascii ''password'', JStr (registerPass form))]),
             req_aborted = ab\<rparr>]"
    using safeFetch_requests [of "API_URL @ ascii ''/register''"
        "register_request (trim (registerUser form)) (trim (registerEmail form)) (registerPass form)"
        None net ?busy]
    by simp
next
  assume "list_all is_white_space (registerUser form) \<or> list_all is_white_space (registerEmail form)"
  then have e: "trim (registerUser form) = [] \<or> trim (registerEmail form) = []"
    using trim_white_space by blast
  then show "signup_submit form net w = (Inr (), showError all_fields_required w)"
    by (auto simp: signup_submit_def Let_def)
  then show "requests (snd (signup_submit form net w)) = requests w"
    by (simp add: showError_def)
qed

theorem signup_password_not_trimmed_witness:
  "trim (registerUser (ada_signup\<lparr>registerPass := ascii ''      ''\<rparr>)) = ascii ''ada''
   \<and> trim (registerEmail (ada_signup\<lparr>registerPass := ascii ''      ''\<rparr>)) = ascii ''ada@example.org''
   \<and> list_all is_white_space (registerPass (ada_signup\<lparr>registerPass := ascii ''      ''\<rparr>))
   \<and> 6 \<le> length (registerPass (ada_signup\<lparr>registerPass := ascii ''      ''\<rparr>))
   \<and> (\<exists>ab. requests (snd (signup_submit (ada_signup\<lparr>registerPass := ascii ''      ''\<rparr>) silent fresh_page)) =
         [\<lparr>req_url = API_URL @ ascii ''/register'', req_method = Some (ascii ''POST''),
           req_headers = [(ascii ''Content-Type'', ascii ''application/json'')],
           req_body = Some (JObj [(ascii ''username'', JStr (ascii ''ada'')),
                                  (ascii ''email'', JStr (ascii ''ada@example.org'')),
                                  (ascii ''password'', JStr (ascii ''      ''))]),
           req_aborted = ab\<rparr>])
   \<and> list_all is_white_space (registerUser (ada_signup\<lparr>registerUser := ascii ''   ''\<rparr>))
   \<and> signup_submit (ada_signup\<lparr>registerUser := ascii ''   ''\<rparr>) silent fresh_page
       = (Inr (), showError all_fields_required fresh_page)
   \<and> requests (snd (signup_submit (ada_signup\<lparr>registerUser := ascii ''   ''\<rparr>) silent fresh_page)) = []"
  using
    signup_password_not_trimmed [of "ada_signup\<lparr>registerPass := ascii ''      ''\<rparr>" silent fresh_page]
    signup_password_not_trimmed [of "ada_signup\<lparr>registerUser := ascii ''   ''\<rparr>" silent fresh_page]
  by (simp add: ada_signup_def showError_def showMessage_status trim_def is_white_space_def ascii_def)

text \<open>
  C2. A login answered in time with a 2xx status and a body whose \<open>token\<close> is read as
  falsy shows the missing-token message and stores nothing (\<open>login_without_token\<close>).
  The body \<open>null\<close> lacks a token too, but reading \<open>data.token\<close> from it throws a
  TypeError, and that error's message is shown instead of the missing-token message.
  Nothing is stored in this case either.
\<close>

theorem login_null_body_type_error:
  "fst (login_submit ada_login (answers (Response 200 (Some JNull))) fresh_page) = Inr ()
   \<and> errorMessage (snd (login_submit ada_login (answers (Response 200 (Some JNull))) fresh_page)) =
       Some \<lparr>textContent = err_message (null_read_error (ascii ''token'')),
             className = ascii ''message error'', display = ascii ''block''\<rparr>
   \<and> err_name (null_read_error (ascii ''token'')) = ascii ''TypeError''
   \<and> err_message (null_read_error (ascii ''token'')) \<noteq> no_token_received
   \<and> localStorage (snd (login_submit ada_login (answers (Response 200 (Some JNull))) fresh_page))
        (ascii ''todo_token'') = None"
proof -
  let ?net = "answers (Response 200 (Some JNull))"
  let ?busy = "fresh_page\<lparr>loginBtn := setButtonLoading (loginBtn fresh_page) True (ascii ''Sign In'')\<rparr>"
  have v: "trim (loginUser ada_login) \<noteq> []" "loginPass ada_login \<noteq> []"
    by (simp_all add: ada_login_def ada_trimmed)
  obtain w1 where t0: "login_try (trim (loginUser ada_login)) (loginPass ada_login) ?net ?busy =
       (case get_prop JNull (ascii ''token'') of
          Inl e \<Rightarrow> (Inl e, w1)
        | Inr tok \<Rightarrow> if truthy tok then login_try (trim (loginUser ada_login)) (loginPass ada_login) ?net ?busy
                     else (Inl (new_Error no_token_received), w1))"
    and st0: "localStorage w1 = localStorage ?busy" "errorMessage w1 = errorMessage ?busy"
    by (rule login_try_without_token [of ?net 200 JNull "trim (loginUser ada_login)" "loginPass ada_login" ?busy])
       (simp_all add: is_ok_def)
  have t: "login_try (trim (loginUser ada_login)) (loginPass ada_login) ?net ?busy =
      (Inl (null_read_error (ascii ''token'')), w1)"
    using t0 by simp
  have e: "errorMessage w1 \<noteq> None" "localStorage w1 = Map.empty"
    using st0 by (simp_all add: fresh_page_def)
  have m: "err_message (null_read_error (ascii ''token'')) \<noteq> []"
    "err_message (null_read_error (ascii ''token'')) \<noteq> no_token_received"
    "err_name (null_read_error (ascii ''token'')) = ascii ''TypeError''"
    by (simp_all add: null_read_error_def new_TypeError_def no_token_received_def cross_mark_def ascii_def)
  show ?thesis
    using login_failure [OF v t] e m by simp
qed

section \<open>Console mirror: the guard and the forwarding\<close>

text \<open>
  C9. While the guard flag is set a wrapped call skips the mirroring and only logs, and
  otherwise it mirrors once (\<open>mirror_guard_skips\<close>, \<open>mirror_guard_runs\<close>,
  \<open>console_nested_call_only_logs\<close>); a call whose arguments join into a string is
  forwarded to the browser's console with the same arguments (\<open>console_forwards\<close>). A
  call with an argument that cannot be converted to a string is not forwarded: the
  wrapper joins the arguments before it calls the original, the join throws, and the
  original is never reached. Here \<open>console.log("state", Symbol())\<close> on the fresh page
  ends with a TypeError and an empty console.
\<close>

theorem console_log_symbol_not_forwarded:
  "console_log [Json (JStr (ascii ''state'')), Symbol] fresh_page = (Inl symbol_error, fresh_page)
   \<and> console_output (snd (console_log [Json (JStr (ascii ''state'')), Symbol] fresh_page)) = []"
  by (simp add: console_log_def fresh_page_def)

end
